theory Spec2Isabelle
  imports Complex_Main "HOL-Library.Char_ord" "HOL-Library.List_Lexorder"
    "HOL-Library.Product_Lexorder"
begin

section \<open>The report generator of \<^verbatim>\<open>report_app.py\<close>\<close>

text \<open>
  The program is one function, \<^verbatim>\<open>generate_report(input_file, output_file)\<close>: it loads a
  production log with pandas, aggregates it per machine, and writes a spreadsheet. The
  embedding follows the function line by line; every stage carries the name of the
  source variable it computes.

  Conventions of the embedding.
  \<^item> Quantities are Python numbers. They are modelled as exact rationals (\<open>rat\<close>); the
    rounding of binary floating point is not modelled. A missing quantity (NaN) is
    \<open>None\<close>.
  \<^item> A pandas timestamp is a value of any linearly ordered type \<open>'d\<close>; NaT is \<open>None\<close>.
  \<^item> What pandas and openpyxl do outside the program's own logic is a parameter: the
    file readers, the permissive date parser \<^verbatim>\<open>pd.to_datetime\<close> (a function of the
    whole column, as in the source), and the points at which writing the workbook can
    raise.
  \<^item> An exception is a value of type \<open>error\<close>; a stage that can raise returns
    \<open>error + result\<close>.
\<close>

subsection \<open>Data model\<close>

datatype error =
    UnsupportedFormat
  | MissingColumn "string list"
  | ZeroDivisionError
  | IOError string

text \<open>
  \<open>UnsupportedFormat\<close> is the \<^verbatim>\<open>ValueError("Unsupported file format. Use CSV or Excel.")\<close>
  of line 23; \<open>MissingColumn ks\<close> is the \<^verbatim>\<open>KeyError\<close> that \<^verbatim>\<open>df[[...]]\<close> raises at line 36,
  with the labels that are not columns of the frame; \<open>ZeroDivisionError\<close> is Python's
  division by zero; \<open>IOError\<close> is whatever a file reader or writer raises.
\<close>

datatype cell = Text string | Number rat | Missing

text \<open>
  One row of a frame. Of a row the program reads five cells only. The work date is of
  type \<open>'w\<close>: a raw \<open>cell\<close> as loaded, a timestamp or NaT (\<open>'d option\<close>) after
  \<^verbatim>\<open>pd.to_datetime\<close>, a timestamp (\<open>'d\<close>) after \<^verbatim>\<open>dropna\<close>. The machine code is
  compared with strings only (\<^verbatim>\<open>isin\<close>), so it is a string. The two quantity columns are
  numeric columns.
\<close>

record 'w row =
  work_date :: 'w
  shift :: cell
  machine :: string
  worked_qty :: "rat option"
  wpc_qty :: "rat option"

text \<open>
  A loaded \<^verbatim>\<open>DataFrame\<close>: its column labels and its rows. Cells under labels other than
  the five consumed ones are never read and are not kept; a consumed cell of a frame
  that lacks the label is never read either, since selection fails first.
\<close>

record 'w frame =
  columns :: "string list"
  rows :: "'w row list"

record 'd machine_summary =
  summary_machine :: string
  last_work_date :: "'d option"
  worked :: rat
  wpc :: rat
  wpcs_percent :: rat

record grand_total =
  total_worked_qty :: rat
  total_wpc_qty :: rat
  total_wpcs_percent :: rat

subsection \<open>Python arithmetic\<close>

text \<open>
  Division. On a zero denominator Python's \<^verbatim>\<open>/\<close> raises \<^verbatim>\<open>ZeroDivisionError\<close> (numpy
  scalars give inf or nan instead); the model makes every division by zero an error,
  so that an unguarded one shows.
\<close>

definition py_div :: "rat \<Rightarrow> rat \<Rightarrow> error + rat" where
  "py_div a b = (if b = 0 then Inl ZeroDivisionError else Inr (a / b))"

definition round_half_even :: "rat \<Rightarrow> int" where
  "round_half_even x =
     (let f = \<lfloor>x\<rfloor>; d = x - of_int f
      in if d < 1 / 2 then f else if 1 / 2 < d then f + 1
         else if even f then f else f + 1)"

text \<open>\<^verbatim>\<open>round(x, ndigits)\<close>: to the nearest multiple of \<open>10 ^ -ndigits\<close>, ties to even.\<close>

definition py_round :: "rat \<Rightarrow> nat \<Rightarrow> rat" where
  "py_round x ndigits = of_int (round_half_even (x * 10 ^ ndigits)) / 10 ^ ndigits"

text \<open>
  Lines 70 and 83:
  \<^verbatim>\<open>round((wpc / worked) * 100, 2) if worked != 0 else 0\<close>.
\<close>

definition percent :: "rat \<Rightarrow> rat \<Rightarrow> error + rat" where
  "percent wpc_q worked_q =
     (if worked_q \<noteq> 0
      then (case py_div wpc_q worked_q of
              Inl e \<Rightarrow> Inl e
            | Inr q \<Rightarrow> Inr (py_round (q * 100) 2))
      else Inr 0)"

text \<open>The sum of a numeric column: pandas skips NaN, and the empty sum is 0.\<close>

definition nansum :: "rat option list \<Rightarrow> rat" where
  "nansum qs = sum_list (map (\<lambda>q. case q of None \<Rightarrow> 0 | Some v \<Rightarrow> v) qs)"

subsection \<open>Transformer: lines 28 to 89\<close>

definition column_map :: "(string \<times> string) list" where
  "column_map =
     [(''Work date'', ''work date''),
      (''Shift'', ''shift''),
      (''Machine'', ''machine''),
      (''Q`ty'', ''worked Q'ty''),
      (''WPCS Qty'', ''WPC qty'')]"

text \<open>
  Line 36: \<^verbatim>\<open>df[list(column_map.keys())].rename(columns=column_map)\<close>. Selecting a list
  of labels raises \<^verbatim>\<open>KeyError\<close> when one of them is not a column; otherwise the result
  has the selected columns, in the order of the list, under their new labels.
\<close>

definition df_selected :: "'w frame \<Rightarrow> error + 'w frame" where
  "df_selected df =
     (case filter (\<lambda>k. k \<notin> set (columns df)) (map fst column_map) of
        [] \<Rightarrow> Inr \<lparr>columns = map snd column_map, rows = rows df\<rparr>
      | k # ks \<Rightarrow> Inl (MissingColumn (k # ks)))"

text \<open>
  Lines 41 and 42: the work-date column is replaced by \<^verbatim>\<open>pd.to_datetime(column,
  errors='coerce')\<close>, then \<^verbatim>\<open>dropna(subset=['work date'])\<close> removes the rows whose date
  is NaT.
\<close>

fun dropna :: "('d option \<times> 'w row) list \<Rightarrow> 'd row list" where
  "dropna [] = []"
| "dropna ((None, r) # xs) = dropna xs"
| "dropna ((Some t, r) # xs) =
     \<lparr>work_date = t, shift = shift r, machine = machine r,
      worked_qty = worked_qty r, wpc_qty = wpc_qty r\<rparr> # dropna xs"

definition parse_work_date :: "('w list \<Rightarrow> 'd option list) \<Rightarrow> 'w row list \<Rightarrow> 'd row list" where
  "parse_work_date to_datetime rs = dropna (zip (to_datetime (map work_date rs)) rs)"

text \<open>Line 47: \<^verbatim>\<open>[f"A{i:02d}" for i in range(1, 39)]\<close>.\<close>

fun decimal :: "nat \<Rightarrow> string" where
  "decimal n =
     (if n < 10 then [char_of (48 + n)]
      else decimal (n div 10) @ [char_of (48 + n mod 10)])"

definition format_02d :: "nat \<Rightarrow> string" where
  "format_02d i = (let s = decimal i in replicate (2 - length s) CHR ''0'' @ s)"

definition allowed_machines :: "string list" where
  "allowed_machines = map (\<lambda>i. ''A'' @ format_02d i) [1..<39]"

text \<open>Line 48: \<^verbatim>\<open>df_selected[df_selected["machine"].isin(allowed_machines)]\<close>.\<close>

definition df_filtered :: "'d row list \<Rightarrow> 'd row list" where
  "df_filtered rs = filter (\<lambda>r. machine r \<in> set allowed_machines) rs"

text \<open>
  \<^verbatim>\<open>groupby("machine")\<close>: one group per distinct key, the keys in ascending order.
\<close>

definition group_keys :: "'d row list \<Rightarrow> string list" where
  "group_keys rs = sort (remdups (map machine rs))"

definition group_rows :: "string \<Rightarrow> 'd row list \<Rightarrow> 'd row list" where
  "group_rows k rs = filter (\<lambda>r. machine r = k) rs"

fun max_date :: "('d::linorder) list \<Rightarrow> 'd option" where
  "max_date [] = None"
| "max_date (t # ts) = Some (fold max ts t)"

text \<open>Line 53: \<^verbatim>\<open>groupby("machine")["work date"].max().reset_index()\<close>.\<close>

definition last_dates :: "('d::linorder) row list \<Rightarrow> (string \<times> 'd option) list" where
  "last_dates rs = map (\<lambda>k. (k, max_date (map work_date (group_rows k rs)))) (group_keys rs)"

text \<open>Line 59: \<^verbatim>\<open>groupby("machine")[["worked Q'ty", "WPC qty"]].sum().reset_index()\<close>.\<close>

definition sum_qty :: "'d row list \<Rightarrow> (string \<times> rat \<times> rat) list" where
  "sum_qty rs =
     map (\<lambda>k. (k, nansum (map worked_qty (group_rows k rs)), nansum (map wpc_qty (group_rows k rs))))
       (group_keys rs)"

text \<open>
  Line 64: \<^verbatim>\<open>pd.merge(last_dates, sum_qty, on="machine")\<close>, an inner join: one row for
  every pair of a left and a right row with the same key, in the order of the left.
\<close>

definition merge ::
  "(string \<times> 'd option) list \<Rightarrow> (string \<times> rat \<times> rat) list \<Rightarrow> (string \<times> 'd option \<times> rat \<times> rat) list" where
  "merge left right =
     concat (map (\<lambda>(k, t). map (\<lambda>(k', w, c). (k, t, w, c)) (filter (\<lambda>(k', w, c). k' = k) right)) left)"

text \<open>
  Lines 69 to 71: \<^verbatim>\<open>summary_df.apply(lambda row: ..., axis=1)\<close> adds the column
  \<^verbatim>\<open>WPCS %\<close>; an exception in the lambda ends the whole run.
\<close>

fun add_wpcs_percent ::
  "(string \<times> 'd option \<times> rat \<times> rat) list \<Rightarrow> error + 'd machine_summary list" where
  "add_wpcs_percent [] = Inr []"
| "add_wpcs_percent ((k, t, w, c) # xs) =
     (case percent c w of
        Inl e \<Rightarrow> Inl e
      | Inr p \<Rightarrow>
          (case add_wpcs_percent xs of
             Inl e \<Rightarrow> Inl e
           | Inr ys \<Rightarrow>
               Inr (\<lparr>summary_machine = k, last_work_date = t, worked = w, wpc = c,
                     wpcs_percent = p\<rparr> # ys)))"

text \<open>The frame \<^verbatim>\<open>summary_df\<close> as it stands after line 71, before the threshold.\<close>

definition summary_all :: "('d::linorder) row list \<Rightarrow> error + 'd machine_summary list" where
  "summary_all rs =
     (let filtered = df_filtered rs
      in add_wpcs_percent (merge (last_dates filtered) (sum_qty filtered)))"

text \<open>Line 76: \<^verbatim>\<open>summary_df[summary_df['WPCS %'] >= 20]\<close>.\<close>

definition threshold :: "'d machine_summary list \<Rightarrow> 'd machine_summary list" where
  "threshold ss = filter (\<lambda>s. 20 \<le> wpcs_percent s) ss"

text \<open>Lines 81 to 89: the one-row frame \<^verbatim>\<open>summary_total\<close>.\<close>

definition summary_total :: "'d machine_summary list \<Rightarrow> error + grand_total" where
  "summary_total summary_df =
     (let w = sum_list (map worked summary_df);
          c = sum_list (map wpc summary_df)
      in case percent c w of
           Inl e \<Rightarrow> Inl e
         | Inr p \<Rightarrow>
             Inr \<lparr>total_worked_qty = w, total_wpc_qty = c, total_wpcs_percent = p\<rparr>)"

text \<open>Lines 28 to 89 together: from the loaded frame to the two tables of the report.\<close>

definition transformer ::
  "(cell list \<Rightarrow> ('d::linorder) option list) \<Rightarrow> cell frame \<Rightarrow>
     error + ('d machine_summary list \<times> grand_total)" where
  "transformer to_datetime df =
     (case df_selected df of
        Inl e \<Rightarrow> Inl e
      | Inr sel \<Rightarrow>
          (case summary_all (parse_work_date to_datetime (rows sel)) of
             Inl e \<Rightarrow> Inl e
           | Inr ss \<Rightarrow>
               (let summary_df = threshold ss
                in case summary_total summary_df of
                     Inl e \<Rightarrow> Inl e
                   | Inr tot \<Rightarrow> Inr (summary_df, tot))))"

subsection \<open>Loader: lines 16 to 23\<close>

text \<open>\<^verbatim>\<open>str.split(sep)\<close> for a separator of one character: the pieces between separators.\<close>

fun split :: "char \<Rightarrow> string \<Rightarrow> string list" where
  "split sep [] = [[]]"
| "split sep (c # cs) =
     (if c = sep then [] # split sep cs
      else (case split sep cs of [] \<Rightarrow> [[c]] | p # ps \<Rightarrow> (c # p) # ps))"

text \<open>
  \<^verbatim>\<open>str.lower()\<close> on the letters A to Z. (No other character becomes one of the letters
  of \<^verbatim>\<open>xlsx\<close>, \<^verbatim>\<open>xls\<close> or \<^verbatim>\<open>csv\<close> when lowered, so only these matter to the loader.)
\<close>

definition lower_char :: "char \<Rightarrow> char" where
  "lower_char c =
     (if CHR ''A'' \<le> c \<and> c \<le> CHR ''Z'' then char_of (of_char c + (32::nat)) else c)"

definition lower :: "string \<Rightarrow> string" where
  "lower s = map lower_char s"

text \<open>Line 16: \<^verbatim>\<open>input_file.split(".")[-1].lower()\<close>.\<close>

definition file_ext :: "string \<Rightarrow> string" where
  "file_ext input_file = lower (last (split CHR ''.'' input_file))"

subsection \<open>The world of one run\<close>

text \<open>
  What an output file holds: the two tables of the sheet \<^verbatim>\<open>Report\<close>, and whether the
  second pass (lines 102 to 158: fonts, fills, borders, column widths) has been saved
  into it.
\<close>

record 'd workbook =
  summary_rows :: "'d machine_summary list"
  total_row :: grand_total
  styled :: bool

text \<open>\<^verbatim>\<open>messagebox.showinfo\<close> (line 160, with the output path) and \<^verbatim>\<open>messagebox.showerror\<close> (line 163).\<close>

datatype dialog = ShowInfo string | ShowError error

record 'd world =
  disk :: "string \<rightharpoonup> 'd workbook"
  opened :: "string list"
  dialogs :: "dialog list"

text \<open>
  The collaborators of a run. The readers return the frame of a path or raise.
  \<open>to_datetime\<close> is \<^verbatim>\<open>pd.to_datetime(column, errors='coerce')\<close>. The three fault fields say
  whether the \<^verbatim>\<open>with pd.ExcelWriter(...)\<close> block (lines 94 to 97), \<^verbatim>\<open>load_workbook\<close>
  (line 102) and \<^verbatim>\<open>wb.save\<close> (line 158) raise for a path; an aborted write also says what
  it leaves at the path, if anything.
\<close>

record 'd env =
  read_excel :: "string \<Rightarrow> error + cell frame"
  read_csv :: "string \<Rightarrow> error + cell frame"
  to_datetime :: "cell list \<Rightarrow> 'd option list"
  excel_writer_fault :: "string \<Rightarrow> (error \<times> 'd workbook option) option"
  load_workbook_fault :: "string \<Rightarrow> error option"
  save_fault :: "string \<Rightarrow> (error \<times> 'd workbook option) option"

text \<open>Lines 16 to 23. A path handed to a reader is recorded in \<open>opened\<close>.\<close>

definition loader :: "'d env \<Rightarrow> string \<Rightarrow> 'd world \<Rightarrow> (error + cell frame) \<times> 'd world" where
  "loader env input_file w =
     (if file_ext input_file \<in> set [''xlsx'', ''xls'']
      then (read_excel env input_file, w\<lparr>opened := input_file # opened w\<rparr>)
      else if file_ext input_file = ''csv''
      then (read_csv env input_file, w\<lparr>opened := input_file # opened w\<rparr>)
      else (Inl UnsupportedFormat, w))"

subsection \<open>Renderer: lines 94 to 158\<close>

definition leave :: "'d workbook option \<Rightarrow> string \<Rightarrow> (string \<rightharpoonup> 'd workbook) \<Rightarrow> (string \<rightharpoonup> 'd workbook)" where
  "leave debris path d = (case debris of None \<Rightarrow> d | Some wb \<Rightarrow> d(path \<mapsto> wb))"

text \<open>
  The writer block puts both tables into the file at \<open>output_file\<close>; the file is then
  read back, styled in memory and saved over itself. Nothing in the source removes a
  file.
\<close>

definition renderer ::
  "'d env \<Rightarrow> string \<Rightarrow> 'd machine_summary list \<Rightarrow> grand_total \<Rightarrow> 'd world \<Rightarrow>
     (error + unit) \<times> 'd world" where
  "renderer env output_file summary_df tot w =
     (case excel_writer_fault env output_file of
        Some (e, debris) \<Rightarrow> (Inl e, w\<lparr>disk := leave debris output_file (disk w)\<rparr>)
      | None \<Rightarrow>
          (let wb = \<lparr>summary_rows = summary_df, total_row = tot, styled = False\<rparr>;
               w1 = w\<lparr>disk := (disk w)(output_file \<mapsto> wb)\<rparr>
           in case load_workbook_fault env output_file of
                Some e \<Rightarrow> (Inl e, w1)
              | None \<Rightarrow>
                  (case save_fault env output_file of
                     Some (e, debris) \<Rightarrow>
                       (Inl e, w1\<lparr>disk := leave debris output_file (disk w1)\<rparr>)
                   | None \<Rightarrow>
                       (Inr (), w1\<lparr>disk := (disk w1)(output_file \<mapsto> wb\<lparr>styled := True\<rparr>)\<rparr>))))"

subsection \<open>The whole function\<close>

text \<open>The body of the \<^verbatim>\<open>try\<close>, up to line 158.\<close>

definition try_body :: "('d::linorder) env \<Rightarrow> string \<Rightarrow> string \<Rightarrow> 'd world \<Rightarrow> (error + unit) \<times> 'd world" where
  "try_body env input_file output_file w =
     (case loader env input_file w of
        (Inl e, w1) \<Rightarrow> (Inl e, w1)
      | (Inr df, w1) \<Rightarrow>
          (case transformer (to_datetime env) df of
             Inl e \<Rightarrow> (Inl e, w1)
           | Inr (summary_df, tot) \<Rightarrow> renderer env output_file summary_df tot w1))"

text \<open>
  Lines 11 to 163: the success dialog closes the \<^verbatim>\<open>try\<close>; \<^verbatim>\<open>except Exception\<close> turns
  every exception into the error dialog.
\<close>

definition generate_report :: "('d::linorder) env \<Rightarrow> string \<Rightarrow> string \<Rightarrow> 'd world \<Rightarrow> 'd world" where
  "generate_report env input_file output_file w =
     (case try_body env input_file output_file w of
        (Inr u, w') \<Rightarrow> w'\<lparr>dialogs := dialogs w' @ [ShowInfo output_file]\<rparr>
      | (Inl e, w') \<Rightarrow> w'\<lparr>dialogs := dialogs w' @ [ShowError e]\<rparr>)"

subsection \<open>Concrete inputs\<close>

text \<open>
  The example table of the specification: two rows of machine A01, one row of a machine
  outside the allow-list, one row with an unparseable date.
\<close>

definition example_rows :: "cell row list" where
  "example_rows =
     [\<lparr>work_date = Text ''2024-01-05'', shift = Missing, machine = ''A01'',
       worked_qty = Some 100, wpc_qty = Some 30\<rparr>,
      \<lparr>work_date = Text ''2024-01-06'', shift = Missing, machine = ''A01'',
       worked_qty = Some 50, wpc_qty = Some 5\<rparr>,
      \<lparr>work_date = Text ''2024-01-01'', shift = Missing, machine = ''A99'',
       worked_qty = Some 10, wpc_qty = Some 10\<rparr>,
      \<lparr>work_date = Text ''bad-date'', shift = Missing, machine = ''A02'',
       worked_qty = Some 5, wpc_qty = Some 5\<rparr>]"

text \<open>
  A table with a machine above the threshold (A01, 30 %), one below it (A02, 10 %),
  and one whose worked quantities sum to 0 (A03: a zero and a missing value).
\<close>

definition mixed_rows :: "cell row list" where
  "mixed_rows =
     [\<lparr>work_date = Text ''2024-01-05'', shift = Missing, machine = ''A01'',
       worked_qty = Some 100, wpc_qty = Some 30\<rparr>,
      \<lparr>work_date = Text ''2024-01-06'', shift = Missing, machine = ''A02'',
       worked_qty = Some 100, wpc_qty = Some 10\<rparr>,
      \<lparr>work_date = Text ''2024-01-01'', shift = Missing, machine = ''A03'',
       worked_qty = Some 0, wpc_qty = Some 7\<rparr>,
      \<lparr>work_date = Text ''2024-01-01'', shift = Missing, machine = ''A03'',
       worked_qty = None, wpc_qty = Some 1\<rparr>]"

text \<open>
  A date parser for concrete inputs: it reads the dates of the example as (year, month,
  day), ordered lexicographically, and coerces every other cell to NaT.
\<close>

definition example_to_datetime :: "cell list \<Rightarrow> (nat \<times> nat \<times> nat) option list" where
  "example_to_datetime =
     map (map_of
       [(Text ''2024-01-05'', (2024, 1, 5)),
        (Text ''2024-01-06'', (2024, 1, 6)),
        (Text ''2024-01-01'', (2024, 1, 1))])"

text \<open>The example table with the bad-date row rewritten: another shift, machine and quantities.\<close>

definition tampered_rows :: "cell row list" where
  "tampered_rows =
     [\<lparr>work_date = Text ''2024-01-05'', shift = Missing, machine = ''A01'',
       worked_qty = Some 100, wpc_qty = Some 30\<rparr>,
      \<lparr>work_date = Text ''2024-01-06'', shift = Missing, machine = ''A01'',
       worked_qty = Some 50, wpc_qty = Some 5\<rparr>,
      \<lparr>work_date = Text ''2024-01-01'', shift = Missing, machine = ''A99'',
       worked_qty = Some 10, wpc_qty = Some 10\<rparr>,
      \<lparr>work_date = Text ''bad-date'', shift = Text ''N'', machine = ''A01'',
       worked_qty = Some 1000, wpc_qty = Some 1000\<rparr>]"

text \<open>
  Three tables of which nothing survives: no date parses; no machine is on the
  allow-list; every machine is below the threshold.
\<close>

definition bad_date_rows :: "cell row list" where
  "bad_date_rows =
     [\<lparr>work_date = Text ''bad-date'', shift = Missing, machine = ''A01'',
       worked_qty = Some 100, wpc_qty = Some 30\<rparr>,
      \<lparr>work_date = Missing, shift = Missing, machine = ''A02'',
       worked_qty = Some 10, wpc_qty = Some 9\<rparr>]"

definition foreign_rows :: "cell row list" where
  "foreign_rows =
     [\<lparr>work_date = Text ''2024-01-05'', shift = Missing, machine = ''A99'',
       worked_qty = Some 100, wpc_qty = Some 30\<rparr>,
      \<lparr>work_date = Text ''2024-01-06'', shift = Missing, machine = ''a01'',
       worked_qty = Some 10, wpc_qty = Some 9\<rparr>]"

definition low_rows :: "cell row list" where
  "low_rows =
     [\<lparr>work_date = Text ''2024-01-05'', shift = Missing, machine = ''A02'',
       worked_qty = Some 100, wpc_qty = Some 10\<rparr>,
      \<lparr>work_date = Text ''2024-01-06'', shift = Missing, machine = ''A03'',
       worked_qty = Some 0, wpc_qty = Some 9\<rparr>]"

definition tampered_frame :: "cell frame" where
  "tampered_frame = \<lparr>columns = map fst column_map, rows = tampered_rows\<rparr>"

definition example_frame :: "cell frame" where
  "example_frame = \<lparr>columns = map fst column_map, rows = example_rows\<rparr>"

text \<open>A table without the column \<^verbatim>\<open>Machine\<close>, and with a column the program does not use.\<close>

definition no_machine_frame :: "cell frame" where
  "no_machine_frame =
     \<lparr>columns = [''Work date'', ''Shift'', ''Q`ty'', ''WPCS Qty'', ''Operator''],
      rows = example_rows\<rparr>"

text \<open>
  Collaborators for concrete runs: both readers return the given frame for every path,
  the writer block and the save never raise, and \<^verbatim>\<open>load_workbook\<close> raises the given
  exception, if any. The world before a run: no files, nothing opened, no dialog.
\<close>

definition example_env :: "cell frame \<Rightarrow> error option \<Rightarrow> (nat \<times> nat \<times> nat) env" where
  "example_env df fault =
     \<lparr>read_excel = (\<lambda>path. Inr df),
      read_csv = (\<lambda>path. Inr df),
      to_datetime = example_to_datetime,
      excel_writer_fault = (\<lambda>path. None),
      load_workbook_fault = (\<lambda>path. fault),
      save_fault = (\<lambda>path. None)\<rparr>"

definition empty_world :: "(nat \<times> nat \<times> nat) world" where
  "empty_world = \<lparr>disk = Map.empty, opened = [], dialogs = []\<rparr>"

section \<open>Properties\<close>

subsection \<open>Closed forms of the stages\<close>

lemma percent_total: "percent c w = Inr (if w \<noteq> 0 then py_round (c / w * 100) 2 else 0)"
  by (simp add: percent_def py_div_def)

lemma allowed_machines_eq:
  "allowed_machines =
     [''A01'', ''A02'', ''A03'', ''A04'', ''A05'', ''A06'', ''A07'', ''A08'', ''A09'', ''A10'',
      ''A11'', ''A12'', ''A13'', ''A14'', ''A15'', ''A16'', ''A17'', ''A18'', ''A19'', ''A20'',
      ''A21'', ''A22'', ''A23'', ''A24'', ''A25'', ''A26'', ''A27'', ''A28'', ''A29'', ''A30'',
      ''A31'', ''A32'', ''A33'', ''A34'', ''A35'', ''A36'', ''A37'', ''A38'']"
  by code_simp

lemma add_wpcs_percent_eq:
  "add_wpcs_percent xs =
     Inr (map (\<lambda>(k, t, w, c).
            \<lparr>summary_machine = k, last_work_date = t, worked = w, wpc = c,
             wpcs_percent = (if w \<noteq> 0 then py_round (c / w * 100) 2 else 0)\<rparr>) xs)"
  by (induction xs rule: add_wpcs_percent.induct) (simp_all add: percent_total)

text \<open>
  Both sides of the join come from the same groups, so the join is one to one: each
  key of the left meets exactly one row of the right.
\<close>

lemma filter_key_map:
  "distinct ks \<Longrightarrow> k \<in> set ks \<Longrightarrow>
     filter (\<lambda>(k', w, c). k' = k) (map (\<lambda>k. (k, g k, h k)) ks) = [(k, g k, h k)]"
  by (induction ks) (auto simp: filter_empty_conv)

lemma merge_same_keys_aux:
  "distinct ks \<Longrightarrow> set js \<subseteq> set ks \<Longrightarrow>
     merge (map (\<lambda>k. (k, f k)) js) (map (\<lambda>k. (k, g k, h k)) ks) =
       map (\<lambda>k. (k, f k, g k, h k)) js"
  by (induction js) (simp_all add: merge_def filter_key_map)

lemma merge_same_keys:
  "distinct ks \<Longrightarrow>
     merge (map (\<lambda>k. (k, f k)) ks) (map (\<lambda>k. (k, g k, h k)) ks) =
       map (\<lambda>k. (k, f k, g k, h k)) ks"
  by (simp add: merge_same_keys_aux)

lemma distinct_group_keys: "distinct (group_keys rs)"
  by (simp add: group_keys_def)

lemma set_group_keys: "set (group_keys rs) = machine ` set rs"
  by (simp add: group_keys_def)

lemma summary_all_eq:
  "summary_all rs =
     Inr (map (\<lambda>k.
            \<lparr>summary_machine = k,
             last_work_date = max_date (map work_date (group_rows k (df_filtered rs))),
             worked = nansum (map worked_qty (group_rows k (df_filtered rs))),
             wpc = nansum (map wpc_qty (group_rows k (df_filtered rs))),
             wpcs_percent =
               (if nansum (map worked_qty (group_rows k (df_filtered rs))) \<noteq> 0
                then py_round (nansum (map wpc_qty (group_rows k (df_filtered rs))) /
                               nansum (map worked_qty (group_rows k (df_filtered rs))) * 100) 2
                else 0)\<rparr>)
          (group_keys (df_filtered rs)))"
  unfolding summary_all_def Let_def last_dates_def sum_qty_def
  by (simp add: merge_same_keys [OF distinct_group_keys] add_wpcs_percent_eq)

lemma summary_total_eq:
  "summary_total ss =
     Inr \<lparr>total_worked_qty = sum_list (map worked ss),
          total_wpc_qty = sum_list (map wpc ss),
          total_wpcs_percent =
            (if sum_list (map worked ss) \<noteq> 0
             then py_round (sum_list (map wpc ss) / sum_list (map worked ss) * 100) 2
             else 0)\<rparr>"
  by (simp add: summary_total_def Let_def percent_total)

lemma transformer_eq:
  "transformer p df =
     (case df_selected df of
        Inl e \<Rightarrow> Inl e
      | Inr sel \<Rightarrow>
          (case summary_all (parse_work_date p (rows sel)) of
             Inl e \<Rightarrow> Inl e
           | Inr ss \<Rightarrow>
               Inr (threshold ss,
                    \<lparr>total_worked_qty = sum_list (map worked (threshold ss)),
                     total_wpc_qty = sum_list (map wpc (threshold ss)),
                     total_wpcs_percent =
                       (if sum_list (map worked (threshold ss)) \<noteq> 0
                        then py_round (sum_list (map wpc (threshold ss)) /
                                       sum_list (map worked (threshold ss)) * 100) 2
                        else 0)\<rparr>)))"
  by (simp add: transformer_def Let_def summary_total_eq split: sum.splits)

lemma df_filtered_idem: "df_filtered (df_filtered rs) = df_filtered rs"
  by (simp add: df_filtered_def)

lemma summary_all_filtered: "summary_all (df_filtered rs) = summary_all rs"
  by (simp add: summary_all_def df_filtered_idem)

lemma df_selected_rows: "df_selected df = Inr sel \<Longrightarrow> rows sel = rows df"
  by (auto simp: df_selected_def split: list.splits)

lemma example_parsed:
  "example_to_datetime
     [Text ''2024-01-05'', Text ''2024-01-06'', Text ''2024-01-01'', Text ''bad-date''] =
   [Some (2024, 1, 5), Some (2024, 1, 6), Some (2024, 1, 1), None]"
  by (simp add: example_to_datetime_def)

subsection \<open>The example of the specification\<close>

text \<open>
  Claim C1. On the four rows of the example, whatever their shifts and whatever further
  columns the table has, with a date parser that reads the three well-formed dates
  (the 5th of January before the 6th) and coerces \<^verbatim>\<open>bad-date\<close> to NaT: after date
  parsing and allow-listing only the two rows of A01 are left (the row of A99 and the
  row with the bad date are gone), and the report has exactly one machine row, A01
  with last work date the 6th of January, worked quantity 150, WPC quantity 35 and
  WPCS % 23.33, and the grand total 150, 35, 23.33.
\<close>

theorem C1_example:
  fixes p :: "cell list \<Rightarrow> ('d::linorder) option list"
  assumes parse:
      "p [Text ''2024-01-05'', Text ''2024-01-06'', Text ''2024-01-01'', Text ''bad-date'']
         = [Some d5, Some d6, Some d1, None]"
    and later: "d5 < d6"
    and rs: "rs =
      [\<lparr>work_date = Text ''2024-01-05'', shift = s1, machine = ''A01'',
        worked_qty = Some 100, wpc_qty = Some 30\<rparr>,
       \<lparr>work_date = Text ''2024-01-06'', shift = s2, machine = ''A01'',
        worked_qty = Some 50, wpc_qty = Some 5\<rparr>,
       \<lparr>work_date = Text ''2024-01-01'', shift = s3, machine = ''A99'',
        worked_qty = Some 10, wpc_qty = Some 10\<rparr>,
       \<lparr>work_date = Text ''bad-date'', shift = s4, machine = ''A02'',
        worked_qty = Some 5, wpc_qty = Some 5\<rparr>]"
  shows "df_filtered (parse_work_date p rs) =
           [\<lparr>work_date = d5, shift = s1, machine = ''A01'',
             worked_qty = Some 100, wpc_qty = Some 30\<rparr>,
            \<lparr>work_date = d6, shift = s2, machine = ''A01'',
             worked_qty = Some 50, wpc_qty = Some 5\<rparr>]
       \<and> transformer p \<lparr>columns = map fst column_map @ extra, rows = rs\<rparr> =
           Inr ([\<lparr>summary_machine = ''A01'', last_work_date = Some d6,
                  worked = 150, wpc = 35, wpcs_percent = 2333 / 100\<rparr>],
                \<lparr>total_worked_qty = 150, total_wpc_qty = 35,
                 total_wpcs_percent = 2333 / 100\<rparr>)"
proof -
  have dated: "parse_work_date p rs =
      [\<lparr>work_date = d5, shift = s1, machine = ''A01'',
        worked_qty = Some 100, wpc_qty = Some 30\<rparr>,
       \<lparr>work_date = d6, shift = s2, machine = ''A01'',
        worked_qty = Some 50, wpc_qty = Some 5\<rparr>,
       \<lparr>work_date = d1, shift = s3, machine = ''A99'',
        worked_qty = Some 10, wpc_qty = Some 10\<rparr>]"
    by (simp add: parse_work_date_def rs parse)
  have filtered: "df_filtered (parse_work_date p rs) =
      [\<lparr>work_date = d5, shift = s1, machine = ''A01'',
        worked_qty = Some 100, wpc_qty = Some 30\<rparr>,
       \<lparr>work_date = d6, shift = s2, machine = ''A01'',
        worked_qty = Some 50, wpc_qty = Some 5\<rparr>]"
    by (simp add: dated df_filtered_def allowed_machines_eq)
  have sel: "df_selected \<lparr>columns = map fst column_map @ extra, rows = rs\<rparr> =
      Inr \<lparr>columns = map snd column_map, rows = rs\<rparr>"
    by (simp add: df_selected_def column_map_def)
  have pct: "py_round (70 / 3) 2 = 2333 / 100"
    by code_simp
  have m: "max d6 d5 = d6"
    using later by (simp add: max_absorb1)
  have all: "summary_all (parse_work_date p rs) =
      Inr [\<lparr>summary_machine = ''A01'', last_work_date = Some d6,
            worked = 150, wpc = 35, wpcs_percent = 2333 / 100\<rparr>]"
    by (simp add: summary_all_eq filtered group_keys_def group_rows_def nansum_def pct m)
  show ?thesis
    by (simp add: filtered transformer_eq sel all threshold_def pct)
qed

theorem C1_example_witness:
  "example_to_datetime
     [Text ''2024-01-05'', Text ''2024-01-06'', Text ''2024-01-01'', Text ''bad-date''] =
     [Some (2024, 1, 5), Some (2024, 1, 6), Some (2024, 1, 1), None]
   \<and> ((2024, 1, 5) :: nat \<times> nat \<times> nat) < (2024, 1, 6)
   \<and> transformer example_to_datetime \<lparr>columns = map fst column_map, rows = example_rows\<rparr> =
       Inr ([\<lparr>summary_machine = ''A01'', last_work_date = Some (2024, 1, 6),
              worked = 150, wpc = 35, wpcs_percent = 2333 / 100\<rparr>],
            \<lparr>total_worked_qty = 150, total_wpc_qty = 35,
             total_wpcs_percent = 2333 / 100\<rparr>)"
proof -
  have later: "((2024, 1, 5) :: nat \<times> nat \<times> nat) < (2024, 1, 6)"
    by simp
  from C1_example [where p = example_to_datetime and extra = "[]",
      OF example_parsed later example_rows_def] example_parsed later
  show ?thesis by simp
qed

subsection \<open>Evaluations of the concrete inputs\<close>

lemma example_report:
  "transformer example_to_datetime \<lparr>columns = map fst column_map, rows = example_rows\<rparr> =
     Inr ([\<lparr>summary_machine = ''A01'', last_work_date = Some (2024, 1, 6),
            worked = 150, wpc = 35, wpcs_percent = 2333 / 100\<rparr>],
          \<lparr>total_worked_qty = 150, total_wpc_qty = 35, total_wpcs_percent = 2333 / 100\<rparr>)"
  by code_simp

lemma mixed_report:
  "transformer example_to_datetime \<lparr>columns = map fst column_map, rows = mixed_rows\<rparr> =
     Inr ([\<lparr>summary_machine = ''A01'', last_work_date = Some (2024, 1, 5),
            worked = 100, wpc = 30, wpcs_percent = 30\<rparr>],
          \<lparr>total_worked_qty = 100, total_wpc_qty = 30, total_wpcs_percent = 30\<rparr>)"
  by code_simp


subsection \<open>Grand total\<close>



subsection \<open>The derived ratio\<close>



subsection \<open>The threshold\<close>

text \<open>
  Claim C4. Every machine row of a report has WPCS % of at least 20: the rows of the
  report are the rows of the summary that pass the filter, and the grand total is
  computed from them. In particular no machine whose worked quantities sum to 0 is in
  the report: its WPCS % is 0, below the threshold.
\<close>

theorem C4_threshold:
  assumes "transformer p df = Inr (summary_df, tot)"
  shows "(\<forall>s \<in> set summary_df.
            20 \<le> wpcs_percent s
          \<and> worked s \<noteq> 0
          \<and> nansum (map worked_qty
                (group_rows (summary_machine s) (df_filtered (parse_work_date p (rows df))))) \<noteq> 0)
       \<and> (\<exists>ss. summary_all (parse_work_date p (rows df)) = Inr ss
             \<and> summary_df = filter (\<lambda>s. 20 \<le> wpcs_percent s) ss)
       \<and> summary_total summary_df = Inr tot"
proof -
  from assms obtain sel ss where sel: "df_selected df = Inr sel"
    and ss: "summary_all (parse_work_date p (rows sel)) = Inr ss"
    and out: "summary_df = threshold ss"
    and tot: "summary_total (threshold ss) = Inr tot"
    by (auto simp: transformer_def Let_def split: sum.splits)
  have rows: "rows sel = rows df"
    using sel by (rule df_selected_rows)
  have "20 \<le> wpcs_percent s
      \<and> worked s \<noteq> 0
      \<and> nansum (map worked_qty
            (group_rows (summary_machine s) (df_filtered (parse_work_date p (rows df))))) \<noteq> 0"
    if "s \<in> set summary_df" for s
  proof -
    from that out have mem: "s \<in> set ss" and ge: "20 \<le> wpcs_percent s"
      by (simp_all add: threshold_def)
    from mem ss [unfolded summary_all_eq rows] have
      w: "worked s = nansum (map worked_qty
            (group_rows (summary_machine s) (df_filtered (parse_work_date p (rows df)))))"
      and pc: "wpcs_percent s = (if worked s \<noteq> 0 then py_round (wpc s / worked s * 100) 2 else 0)"
      by auto
    from pc ge have "worked s \<noteq> 0"
      by (auto split: if_splits)
    with ge w show ?thesis
      by simp
  qed
  then have a: "\<forall>s \<in> set summary_df.
            20 \<le> wpcs_percent s
          \<and> worked s \<noteq> 0
          \<and> nansum (map worked_qty
                (group_rows (summary_machine s) (df_filtered (parse_work_date p (rows df))))) \<noteq> 0"
    by blast
  from ss out rows
  have b: "\<exists>ss. summary_all (parse_work_date p (rows df)) = Inr ss
             \<and> summary_df = filter (\<lambda>s. 20 \<le> wpcs_percent s) ss"
    by (simp add: threshold_def)
  from out tot have c: "summary_total summary_df = Inr tot"
    by simp
  show ?thesis
    by (rule conjI [OF a conjI [OF b c]])
qed

text \<open>
  On the mixed table only A01 is reported; the worked quantities of A03 sum to 0 and
  A03 is not in the report.
\<close>

theorem C4_threshold_witness:
  "transformer example_to_datetime \<lparr>columns = map fst column_map, rows = mixed_rows\<rparr> =
     Inr ([\<lparr>summary_machine = ''A01'', last_work_date = Some (2024, 1, 5),
            worked = 100, wpc = 30, wpcs_percent = 30\<rparr>],
          \<lparr>total_worked_qty = 100, total_wpc_qty = 30, total_wpcs_percent = 30\<rparr>)
   \<and> (20 :: rat) \<le> 30
   \<and> nansum (map worked_qty (group_rows ''A03''
         (df_filtered (parse_work_date example_to_datetime mixed_rows)))) = 0
   \<and> nansum (map worked_qty (group_rows ''A01''
         (df_filtered (parse_work_date example_to_datetime mixed_rows)))) \<noteq> 0"
proof -
  let ?a = "\<lparr>summary_machine = ''A01'', last_work_date = Some ((2024, 1, 5) :: nat \<times> nat \<times> nat),
           worked = 100, wpc = 30, wpcs_percent = 30\<rparr>"
  have zero: "nansum (map worked_qty (group_rows ''A03''
         (df_filtered (parse_work_date example_to_datetime mixed_rows)))) = 0"
    by code_simp
  from C4_threshold [OF mixed_report]
  have "20 \<le> wpcs_percent ?a \<and> nansum (map worked_qty
         (group_rows (summary_machine ?a)
            (df_filtered (parse_work_date example_to_datetime
               (rows \<lparr>columns = map fst column_map, rows = mixed_rows\<rparr>))))) \<noteq> 0"
    by simp
  with mixed_report zero show ?thesis
    by simp
qed

subsection \<open>The allow-list\<close>

text \<open>
  Claim C5. The allow-list is the 38 strings A01 to A38, letter A and two digits with a
  leading zero. Every machine row of a report carries one of them, and the summary is
  computed from the allow-listed rows alone: aggregating all dated rows gives what
  aggregating only the rows with an allow-listed machine code gives. Rows with another
  code raise nothing; they are left out.
\<close>

theorem C5_allow_list:
  assumes "transformer p df = Inr (summary_df, tot)"
  shows "allowed_machines =
     [''A01'', ''A02'', ''A03'', ''A04'', ''A05'', ''A06'', ''A07'', ''A08'', ''A09'', ''A10'',
      ''A11'', ''A12'', ''A13'', ''A14'', ''A15'', ''A16'', ''A17'', ''A18'', ''A19'', ''A20'',
      ''A21'', ''A22'', ''A23'', ''A24'', ''A25'', ''A26'', ''A27'', ''A28'', ''A29'', ''A30'',
      ''A31'', ''A32'', ''A33'', ''A34'', ''A35'', ''A36'', ''A37'', ''A38'']
    \<and> (\<forall>s \<in> set summary_df. summary_machine s \<in> set allowed_machines)
    \<and> summary_all (parse_work_date p (rows df)) =
        summary_all (filter (\<lambda>r. machine r \<in> set allowed_machines)
          (parse_work_date p (rows df)))"
proof -
  from assms obtain sel ss where sel: "df_selected df = Inr sel"
    and ss: "summary_all (parse_work_date p (rows sel)) = Inr ss"
    and out: "summary_df = threshold ss"
    by (auto simp: transformer_def Let_def split: sum.splits)
  have rows: "rows sel = rows df"
    using sel by (rule df_selected_rows)
  have "summary_machine s \<in> set allowed_machines" if "s \<in> set summary_df" for s
  proof -
    from that out have "s \<in> set ss"
      by (simp add: threshold_def)
    with ss [unfolded summary_all_eq]
    have "summary_machine s \<in> set (group_keys (df_filtered (parse_work_date p (rows sel))))"
      by auto
    then show ?thesis
      by (auto simp: set_group_keys df_filtered_def)
  qed
  moreover have "summary_all (parse_work_date p (rows df)) =
        summary_all (filter (\<lambda>r. machine r \<in> set allowed_machines)
          (parse_work_date p (rows df)))"
    using summary_all_filtered [of "parse_work_date p (rows df)"]
    by (simp add: df_filtered_def)
  ultimately show ?thesis
    using allowed_machines_eq by blast
qed

text \<open>
  On the example the only machine of the report is A01; A99 is not on the list, and
  neither is a code in lower case or without the leading zero.
\<close>

theorem C5_allow_list_witness:
  "transformer example_to_datetime \<lparr>columns = map fst column_map, rows = example_rows\<rparr> =
     Inr ([\<lparr>summary_machine = ''A01'', last_work_date = Some (2024, 1, 6),
            worked = 150, wpc = 35, wpcs_percent = 2333 / 100\<rparr>],
          \<lparr>total_worked_qty = 150, total_wpc_qty = 35, total_wpcs_percent = 2333 / 100\<rparr>)
   \<and> ''A01'' \<in> set allowed_machines
   \<and> ''A99'' \<notin> set allowed_machines
   \<and> ''a01'' \<notin> set allowed_machines
   \<and> ''A1'' \<notin> set allowed_machines
   \<and> length allowed_machines = 38"
proof -
  let ?a = "\<lparr>summary_machine = ''A01'', last_work_date = Some ((2024, 1, 6) :: nat \<times> nat \<times> nat),
            worked = 150, wpc = 35, wpcs_percent = 2333 / 100\<rparr>"
  from C5_allow_list [OF example_report]
  have eq: "allowed_machines =
     [''A01'', ''A02'', ''A03'', ''A04'', ''A05'', ''A06'', ''A07'', ''A08'', ''A09'', ''A10'',
      ''A11'', ''A12'', ''A13'', ''A14'', ''A15'', ''A16'', ''A17'', ''A18'', ''A19'', ''A20'',
      ''A21'', ''A22'', ''A23'', ''A24'', ''A25'', ''A26'', ''A27'', ''A28'', ''A29'', ''A30'',
      ''A31'', ''A32'', ''A33'', ''A34'', ''A35'', ''A36'', ''A37'', ''A38'']"
    and mem: "summary_machine ?a \<in> set allowed_machines"
    by simp_all
  have "''A99'' \<notin> set allowed_machines" "''a01'' \<notin> set allowed_machines"
    "''A1'' \<notin> set allowed_machines" "length allowed_machines = 38"
    by (simp_all add: eq)
  with mem example_report show ?thesis
    by simp
qed

subsection \<open>Column selection\<close>

lemma loader_disk: "loader env input_file w = (r, w1) \<Longrightarrow> disk w1 = disk w \<and> dialogs w1 = dialogs w"
  by (auto simp: loader_def split: if_splits)

text \<open>
  Claim C6. The five required labels are \<^verbatim>\<open>Work date\<close>, \<^verbatim>\<open>Shift\<close>, \<^verbatim>\<open>Machine\<close>,
  \<^verbatim>\<open>Q`ty\<close> and \<^verbatim>\<open>WPCS Qty\<close>. If one of them is not a column of the loaded table, the
  transformer fails with \<open>MissingColumn\<close>, carrying the required labels that are
  absent, whatever the date parser is: nothing is parsed, filtered or aggregated. The
  run then shows that error and leaves the disk as it was. If all five are columns,
  the selection succeeds and its columns are exactly the five canonical labels, in
  order, over the same rows.
\<close>

theorem C6_missing_column:
  fixes df :: "cell frame" and p :: "cell list \<Rightarrow> ('d::linorder) option list"
    and env :: "'d env"
  shows "map fst column_map = [''Work date'', ''Shift'', ''Machine'', ''Q`ty'', ''WPCS Qty'']
    \<and> (k \<in> set (map fst column_map) \<and> k \<notin> set (columns df) \<longrightarrow>
          k \<in> set (filter (\<lambda>k. k \<notin> set (columns df)) (map fst column_map))
        \<and> transformer p df =
            Inl (MissingColumn (filter (\<lambda>k. k \<notin> set (columns df)) (map fst column_map)))
        \<and> (loader env input_file w = (Inr df, w1) \<longrightarrow>
             generate_report env input_file output_file w =
               w1\<lparr>dialogs := dialogs w1 @
                 [ShowError (MissingColumn
                    (filter (\<lambda>k. k \<notin> set (columns df)) (map fst column_map)))]\<rparr>
           \<and> disk (generate_report env input_file output_file w) = disk w))
    \<and> (set (map fst column_map) \<subseteq> set (columns df) \<longrightarrow>
          df_selected df =
            Inr \<lparr>columns = [''work date'', ''shift'', ''machine'', ''worked Q'ty'', ''WPC qty''],
                 rows = rows df\<rparr>)"
proof -
  let ?missing = "filter (\<lambda>k. k \<notin> set (columns df)) (map fst column_map)"
  have labels: "map fst column_map = [''Work date'', ''Shift'', ''Machine'', ''Q`ty'', ''WPCS Qty'']"
    by (simp add: column_map_def)
  have present: "df_selected df =
            Inr \<lparr>columns = [''work date'', ''shift'', ''machine'', ''worked Q'ty'', ''WPC qty''],
                 rows = rows df\<rparr>"
    if "set (map fst column_map) \<subseteq> set (columns df)"
  proof -
    from that have "?missing = []"
      by (auto simp: filter_empty_conv)
    then show ?thesis
      by (simp add: df_selected_def column_map_def)
  qed
  have absent: "k \<in> set ?missing
        \<and> transformer p df = Inl (MissingColumn ?missing)
        \<and> (loader env input_file w = (Inr df, w1) \<longrightarrow>
             generate_report env input_file output_file w =
               w1\<lparr>dialogs := dialogs w1 @ [ShowError (MissingColumn ?missing)]\<rparr>
           \<and> disk (generate_report env input_file output_file w) = disk w)"
    if "k \<in> set (map fst column_map)" and "k \<notin> set (columns df)"
  proof -
    from that have mem: "k \<in> set ?missing"
      by simp
    then obtain m ms where ms: "?missing = m # ms"
      by (cases ?missing) auto
    then have sel: "df_selected df = Inl (MissingColumn ?missing)"
      by (simp add: df_selected_def)
    then have tr: "transformer q df = Inl (MissingColumn ?missing)" for q :: "cell list \<Rightarrow> 'd option list"
      by (simp add: transformer_def)
    have "generate_report env input_file output_file w =
               w1\<lparr>dialogs := dialogs w1 @ [ShowError (MissingColumn ?missing)]\<rparr>
           \<and> disk (generate_report env input_file output_file w) = disk w"
      if "loader env input_file w = (Inr df, w1)"
      using that tr [of "to_datetime env"] loader_disk [OF that]
      by (simp add: generate_report_def try_body_def)
    with mem tr show ?thesis
      by blast
  qed
  from labels present absent show ?thesis
    by blast
qed

text \<open>
  The table without \<^verbatim>\<open>Machine\<close> fails with \<open>MissingColumn [''Machine'']\<close> and no file
  is written; the example table is selected and relabelled.
\<close>

theorem C6_missing_column_witness:
  "''Machine'' \<in> set (map fst column_map) \<and> ''Machine'' \<notin> set (columns no_machine_frame)
   \<and> transformer example_to_datetime no_machine_frame = Inl (MissingColumn [''Machine''])
   \<and> loader (example_env no_machine_frame None) ''log.csv'' empty_world =
       (Inr no_machine_frame, empty_world\<lparr>opened := [''log.csv'']\<rparr>)
   \<and> dialogs (generate_report (example_env no_machine_frame None) ''log.csv'' ''out.xlsx''
        empty_world) = [ShowError (MissingColumn [''Machine''])]
   \<and> disk (generate_report (example_env no_machine_frame None) ''log.csv'' ''out.xlsx''
        empty_world) ''out.xlsx'' = None
   \<and> set (map fst column_map) \<subseteq> set (columns example_frame)
   \<and> df_selected example_frame =
       Inr \<lparr>columns = [''work date'', ''shift'', ''machine'', ''worked Q'ty'', ''WPC qty''],
            rows = example_rows\<rparr>"
proof -
  have ext: "file_ext ''log.csv'' = ''csv''"
    by code_simp
  have ld: "loader (example_env no_machine_frame None) ''log.csv'' empty_world =
       (Inr no_machine_frame, empty_world\<lparr>opened := [''log.csv'']\<rparr>)"
    by (simp add: loader_def ext example_env_def empty_world_def)
  have absent: "''Machine'' \<in> set (map fst column_map) \<and> ''Machine'' \<notin> set (columns no_machine_frame)"
    by (simp add: column_map_def no_machine_frame_def)
  have missing: "filter (\<lambda>k. k \<notin> set (columns no_machine_frame)) (map fst column_map) = [''Machine'']"
    by (simp add: column_map_def no_machine_frame_def)
  have present: "set (map fst column_map) \<subseteq> set (columns example_frame)"
    by (simp add: example_frame_def)
  note A = C6_missing_column [of "''Machine''" no_machine_frame example_to_datetime
      "example_env no_machine_frame None" "''log.csv''" empty_world
      "empty_world\<lparr>opened := [''log.csv'']\<rparr>" "''out.xlsx''"]
  note B = C6_missing_column [of "''Machine''" example_frame example_to_datetime
      "example_env no_machine_frame None" "''log.csv''" empty_world
      "empty_world\<lparr>opened := [''log.csv'']\<rparr>" "''out.xlsx''"]
  from A [unfolded missing] absent ld have
    t: "transformer example_to_datetime no_machine_frame = Inl (MissingColumn [''Machine''])"
    and g: "generate_report (example_env no_machine_frame None) ''log.csv'' ''out.xlsx'' empty_world =
       (empty_world\<lparr>opened := [''log.csv'']\<rparr>)\<lparr>dialogs := dialogs (empty_world\<lparr>opened := [''log.csv'']\<rparr>) @
          [ShowError (MissingColumn [''Machine''])]\<rparr>"
    by blast+
  from B present have s: "df_selected example_frame =
       Inr \<lparr>columns = [''work date'', ''shift'', ''machine'', ''worked Q'ty'', ''WPC qty''],
            rows = rows example_frame\<rparr>"
    by blast
  have r: "rows example_frame = example_rows"
    by (simp add: example_frame_def)
  from t g s absent ld present show ?thesis
    by (simp add: empty_world_def r)
qed

subsection \<open>The loader\<close>

lemma split_nonempty: "split sep s \<noteq> []"
  by (induction s) (auto split: list.splits)

lemma split_no_sep: "sep \<notin> set e \<Longrightarrow> split sep e = [e]"
  by (induction e) auto

lemma split_append: "split sep (a @ sep # b) = split sep a @ split sep b"
  by (induction a) (auto split: list.splits simp: split_nonempty)

lemma last_split: "sep \<notin> set e \<Longrightarrow> last (split sep (stem @ sep # e)) = e"
  by (simp add: split_append split_no_sep)

text \<open>Every path is a dot-free \<open>e\<close>, or ends in a dot and a dot-free \<open>e\<close>.\<close>

lemma path_forms:
  "\<exists>stem e. CHR ''.'' \<notin> set e \<and> (input_file = stem @ ''.'' @ e \<or> input_file = e)"
proof (induction input_file rule: rev_induct)
  case Nil
  then show ?case by simp
next
  case (snoc c cs)
  then obtain stem e where e: "CHR ''.'' \<notin> set e" and cs: "cs = stem @ ''.'' @ e \<or> cs = e"
    by blast
  show ?case
  proof (cases "c = CHR ''.''")
    case True
    have "CHR ''.'' \<notin> set []" and "cs @ [c] = cs @ ''.'' @ []"
      using True by simp_all
    then show ?thesis by blast
  next
    case False
    with e have "CHR ''.'' \<notin> set (e @ [c])"
      by simp
    moreover from cs have "cs @ [c] = stem @ ''.'' @ (e @ [c]) \<or> cs @ [c] = e @ [c]"
      by auto
    ultimately show ?thesis by blast
  qed
qed

text \<open>
  Claim C7. The extension the loader looks at is the text after the last dot of the
  path (the whole path when it has no dot), lowered. For a path that ends in a dot and
  \<open>e\<close>, or is \<open>e\<close>, with no dot in \<open>e\<close> (every path is; see \<open>path_forms\<close>): when \<open>e\<close> lowered is \<^verbatim>\<open>xlsx\<close> or
  \<^verbatim>\<open>xls\<close> the path goes to the spreadsheet reader, when it is \<^verbatim>\<open>csv\<close> to the
  delimited-text reader, and otherwise the loader fails with \<open>UnsupportedFormat\<close>
  and opens nothing: the run only adds the error dialog to the world.
\<close>

theorem C7_loader:
  fixes env :: "('d::linorder) env"
  assumes "CHR ''.'' \<notin> set e"
    and "input_file = stem @ ''.'' @ e \<or> input_file = e"
  shows "file_ext input_file = lower e
    \<and> loader env input_file w =
        (if lower e = ''xlsx'' \<or> lower e = ''xls''
         then (read_excel env input_file, w\<lparr>opened := input_file # opened w\<rparr>)
         else if lower e = ''csv''
         then (read_csv env input_file, w\<lparr>opened := input_file # opened w\<rparr>)
         else (Inl UnsupportedFormat, w))
    \<and> (lower e \<noteq> ''xlsx'' \<and> lower e \<noteq> ''xls'' \<and> lower e \<noteq> ''csv'' \<longrightarrow>
          generate_report env input_file output_file w =
            w\<lparr>dialogs := dialogs w @ [ShowError UnsupportedFormat]\<rparr>)"
proof -
  from assms have ext: "file_ext input_file = lower e"
    by (auto simp: file_ext_def last_split split_no_sep)
  then have ld: "loader env input_file w =
        (if lower e = ''xlsx'' \<or> lower e = ''xls''
         then (read_excel env input_file, w\<lparr>opened := input_file # opened w\<rparr>)
         else if lower e = ''csv''
         then (read_csv env input_file, w\<lparr>opened := input_file # opened w\<rparr>)
         else (Inl UnsupportedFormat, w))"
    by (simp add: loader_def)
  then have "generate_report env input_file output_file w =
            w\<lparr>dialogs := dialogs w @ [ShowError UnsupportedFormat]\<rparr>"
    if "lower e \<noteq> ''xlsx'' \<and> lower e \<noteq> ''xls'' \<and> lower e \<noteq> ''csv''"
    using that by (simp add: generate_report_def try_body_def)
  with ext ld show ?thesis
    by blast
qed

lemma lower_XlSx: "lower ''XlSx'' = ''xlsx''"
  by code_simp
lemma lower_pdf: "lower ''pdf'' = ''pdf''"
  by code_simp
lemma lower_CSV: "lower ''CSV'' = ''csv''"
  by code_simp

text \<open>Mixed case is accepted; \<^verbatim>\<open>pdf\<close> is refused and no reader is called.\<close>

theorem C7_loader_witness:
  "file_ext ''data/log.v2.XlSx'' = ''xlsx''
   \<and> loader (example_env example_frame None) ''data/log.v2.XlSx'' empty_world =
       (Inr example_frame, empty_world\<lparr>opened := [''data/log.v2.XlSx'']\<rparr>)
   \<and> file_ext ''LOG.CSV'' = ''csv''
   \<and> loader (example_env example_frame None) ''LOG.CSV'' empty_world =
       (Inr example_frame, empty_world\<lparr>opened := [''LOG.CSV'']\<rparr>)
   \<and> file_ext ''log.pdf'' = ''pdf''
   \<and> loader (example_env example_frame None) ''log.pdf'' empty_world =
       (Inl UnsupportedFormat, empty_world)
   \<and> generate_report (example_env example_frame None) ''log.pdf'' ''out.xlsx'' empty_world =
       empty_world\<lparr>dialogs := [ShowError UnsupportedFormat]\<rparr>"
proof -
  have a: "CHR ''.'' \<notin> set ''XlSx''" "''data/log.v2.XlSx'' = ''data/log.v2'' @ ''.'' @ ''XlSx'' \<or> ''data/log.v2.XlSx'' = ''XlSx''"
    by simp_all
  have b: "CHR ''.'' \<notin> set ''CSV''" "''LOG.CSV'' = ''LOG'' @ ''.'' @ ''CSV'' \<or> ''LOG.CSV'' = ''CSV''"
    by simp_all
  have c: "CHR ''.'' \<notin> set ''pdf''" "''log.pdf'' = ''log'' @ ''.'' @ ''pdf'' \<or> ''log.pdf'' = ''pdf''"
    by simp_all
  note A = C7_loader [OF a, of "example_env example_frame None" empty_world "''out.xlsx''"]
  note B = C7_loader [OF b, of "example_env example_frame None" empty_world "''out.xlsx''"]
  note C = C7_loader [OF c, of "example_env example_frame None" empty_world "''out.xlsx''"]
  from A B C show ?thesis
    by (simp add: lower_XlSx lower_pdf lower_CSV example_env_def empty_world_def)
qed

subsection \<open>Failed runs\<close>






subsection \<open>Rows without a date\<close>

lemma dropna_cong:
  "length rs' = length rs \<Longrightarrow>
   (\<forall>i. i < length rs \<and> i < length ds \<and> ds ! i \<noteq> None \<longrightarrow> rs' ! i = rs ! i) \<Longrightarrow>
   dropna (zip ds rs') = dropna (zip ds rs)"
proof (induction ds arbitrary: rs rs')
  case Nil
  then show ?case by simp
next
  case (Cons d ds)
  show ?case
  proof (cases rs)
    case Nil
    with Cons.prems show ?thesis by simp
  next
    case rs: (Cons r rt)
    with Cons.prems(1) obtain r' rt' where rs': "rs' = r' # rt'"
      by (cases rs') auto
    from Cons.prems rs rs' have len: "length rt' = length rt"
      by simp
    have tail: "\<forall>i. i < length rt \<and> i < length ds \<and> ds ! i \<noteq> None \<longrightarrow> rt' ! i = rt ! i"
    proof (intro allI impI)
      fix i
      assume "i < length rt \<and> i < length ds \<and> ds ! i \<noteq> None"
      then have "Suc i < length rs \<and> Suc i < length (d # ds) \<and> (d # ds) ! Suc i \<noteq> None"
        by (simp add: rs)
      with Cons.prems(2) have "rs' ! Suc i = rs ! Suc i"
        by blast
      then show "rt' ! i = rt ! i"
        by (simp add: rs rs')
    qed
    have IH: "dropna (zip ds rt') = dropna (zip ds rt)"
      using Cons.IH [OF len tail] .
    show ?thesis
    proof (cases d)
      case None
      with IH rs rs' show ?thesis by simp
    next
      case (Some t)
      with Cons.prems(2) [rule_format, of 0] rs rs' have "r' = r"
        by simp
      with IH rs rs' Some show ?thesis by simp
    qed
  qed
qed

lemma transformer_total:
  "df_selected df = Inr sel \<Longrightarrow> \<exists>out. transformer p df = Inr out"
  by (simp add: transformer_eq summary_all_eq)
lemma dropna_all_None: "\<forall>d \<in> set ds. d = None \<Longrightarrow> dropna (zip ds rs) = []"
proof (induction ds arbitrary: rs)
  case Nil
  then show ?case by simp
next
  case (Cons d ds)
  then show ?case by (cases rs) simp_all
qed

lemma dropna_machine: "r \<in> set (dropna (zip ds rs)) \<Longrightarrow> machine r \<in> machine ` set rs"
proof (induction ds arbitrary: rs)
  case Nil
  then show ?case by simp
next
  case (Cons d ds)
  show ?case
  proof (cases rs)
    case Nil
    with Cons.prems show ?thesis by simp
  next
    case rs: (Cons x xs)
    show ?thesis
    proof (cases d)
      case None
      with Cons.prems rs have "r \<in> set (dropna (zip ds xs))" by simp
      from Cons.IH [OF this] rs show ?thesis by simp
    next
      case (Some t)
      with Cons.prems rs have "machine r = machine x \<or> r \<in> set (dropna (zip ds xs))"
        by auto
      with Cons.IH [of xs] rs show ?thesis by auto
    qed
  qed
qed

lemma dropna_length:
  "length (dropna (zip ds rs)) = length (filter (\<lambda>d. d \<noteq> None) (take (length rs) ds))"
proof (induction ds arbitrary: rs)
  case Nil
  then show ?case by simp
next
  case (Cons d ds)
  show ?case
  proof (cases rs)
    case Nil
    then show ?thesis by simp
  next
    case (Cons x xs)
    with Cons.IH [of xs] show ?thesis by (cases d) simp_all
  qed
qed

text \<open>
  Claim C9. A row whose work date is coerced to NaT is dropped, and nothing of it
  reaches the report: two tables with the same columns and the same work-date column
  that agree on every row whose date is parsed give the same result, whatever the
  shift, machine and quantities of the other rows are. As many rows are left after the
  drop as there are parsed dates. An unparseable date raises nothing: with all five
  columns present the transformer returns a report.
\<close>

theorem C9_date_drop:
  fixes p :: "cell list \<Rightarrow> ('d::linorder) option list"
  assumes cols: "columns df' = columns df"
    and dates: "map work_date (rows df') = map work_date (rows df)"
    and same: "\<forall>i. i < length (rows df) \<and> i < length (p (map work_date (rows df)))
                   \<and> p (map work_date (rows df)) ! i \<noteq> None \<longrightarrow> rows df' ! i = rows df ! i"
  shows "transformer p df' = transformer p df
       \<and> length (parse_work_date p (rows df)) =
           length (filter (\<lambda>d. d \<noteq> None)
             (take (length (rows df)) (p (map work_date (rows df)))))
       \<and> (set (map fst column_map) \<subseteq> set (columns df) \<longrightarrow> (\<exists>out. transformer p df = Inr out))"
proof -
  from dates have len: "length (rows df') = length (rows df)"
    by (metis length_map)
  have parsed: "parse_work_date p (rows df') = parse_work_date p (rows df)"
    unfolding parse_work_date_def dates
    using len same by (rule dropna_cong)
  have eq: "transformer p df' = transformer p df"
  proof (cases "df_selected df")
    case (Inl e)
    then have "df_selected df' = Inl e"
      by (auto simp: df_selected_def cols split: list.splits)
    with Inl show ?thesis
      by (simp add: transformer_def)
  next
    case (Inr sel)
    then obtain sel' where sel': "df_selected df' = Inr sel'"
      by (auto simp: df_selected_def cols split: list.splits)
    from Inr sel' parsed show ?thesis
      by (simp add: transformer_def df_selected_rows)
  qed
  have "\<exists>out. transformer p df = Inr out" if "set (map fst column_map) \<subseteq> set (columns df)"
  proof -
    from that have "filter (\<lambda>k. k \<notin> set (columns df)) (map fst column_map) = []"
      by (auto simp: filter_empty_conv)
    then obtain sel where "df_selected df = Inr sel"
      by (simp add: df_selected_def)
    then show ?thesis
      by (rule transformer_total)
  qed
  moreover have "length (parse_work_date p (rows df)) =
           length (filter (\<lambda>d. d \<noteq> None)
             (take (length (rows df)) (p (map work_date (rows df)))))"
    by (simp add: parse_work_date_def dropna_length)
  ultimately show ?thesis
    using eq by blast
qed

text \<open>
  The example table and the table with its bad-date row rewritten (machine A01, 1000
  pieces) give the same report.
\<close>

theorem C9_date_drop_witness:
  "columns tampered_frame = columns example_frame
   \<and> map work_date (rows tampered_frame) = map work_date (rows example_frame)
   \<and> example_to_datetime (map work_date (rows example_frame)) ! 3 = None
   \<and> rows tampered_frame ! 3 \<noteq> rows example_frame ! 3
   \<and> transformer example_to_datetime tampered_frame =
       transformer example_to_datetime example_frame
   \<and> transformer example_to_datetime example_frame =
       Inr ([\<lparr>summary_machine = ''A01'', last_work_date = Some (2024, 1, 6),
              worked = 150, wpc = 35, wpcs_percent = 2333 / 100\<rparr>],
            \<lparr>total_worked_qty = 150, total_wpc_qty = 35, total_wpcs_percent = 2333 / 100\<rparr>)"
proof -
  have cols: "columns tampered_frame = columns example_frame"
    by (simp add: tampered_frame_def example_frame_def)
  have dates: "map work_date (rows tampered_frame) = map work_date (rows example_frame)"
    by (simp add: tampered_frame_def example_frame_def tampered_rows_def example_rows_def)
  have parsed: "example_to_datetime (map work_date (rows example_frame)) =
      [Some (2024, 1, 5), Some (2024, 1, 6), Some (2024, 1, 1), None]"
    by (simp add: example_frame_def example_rows_def example_parsed)
  have same: "\<forall>i. i < length (rows example_frame)
        \<and> i < length (example_to_datetime (map work_date (rows example_frame)))
        \<and> example_to_datetime (map work_date (rows example_frame)) ! i \<noteq> None
      \<longrightarrow> rows tampered_frame ! i = rows example_frame ! i"
  proof (intro allI impI)
    fix i
    assume a: "i < length (rows example_frame)
        \<and> i < length (example_to_datetime (map work_date (rows example_frame)))
        \<and> example_to_datetime (map work_date (rows example_frame)) ! i \<noteq> None"
    then have "i < 4"
      by (simp add: example_frame_def example_rows_def)
    then consider "i = 0" | "i = 1" | "i = 2" | "i = 3"
      by linarith
    then show "rows tampered_frame ! i = rows example_frame ! i"
    proof cases
      case 4
      with a parsed show ?thesis by simp
    qed (simp_all add: tampered_frame_def example_frame_def tampered_rows_def example_rows_def)
  qed
  have differ: "rows tampered_frame ! 3 \<noteq> rows example_frame ! 3"
    by (simp add: tampered_frame_def example_frame_def tampered_rows_def example_rows_def)
  have rep: "transformer example_to_datetime example_frame =
       Inr ([\<lparr>summary_machine = ''A01'', last_work_date = Some (2024, 1, 6),
              worked = 150, wpc = 35, wpcs_percent = 2333 / 100\<rparr>],
            \<lparr>total_worked_qty = 150, total_wpc_qty = 35, total_wpcs_percent = 2333 / 100\<rparr>)"
    using example_report by (simp add: example_frame_def)
  from C9_date_drop [where p = example_to_datetime, OF cols dates same]
  have "transformer example_to_datetime tampered_frame =
       transformer example_to_datetime example_frame"
    by blast
  with cols dates parsed differ rep show ?thesis
    by simp
qed

subsection \<open>Nothing survives\<close>

lemma summary_all_Nil: "df_filtered rs = [] \<Longrightarrow> summary_all rs = Inr []"
  by (simp add: summary_all_eq group_keys_def)

lemma transformer_empty:
  assumes sel: "df_selected df = Inr sel"
    and ss: "summary_all (parse_work_date p (rows df)) = Inr ss"
    and low: "threshold ss = []"
  shows "transformer p df =
     Inr ([], \<lparr>total_worked_qty = 0, total_wpc_qty = 0, total_wpcs_percent = 0\<rparr>)"
  using sel ss low df_selected_rows [OF sel]
  by (simp add: transformer_eq)

text \<open>
  Claim C10. With all five columns present, if every work date is coerced to NaT, or no
  row has an allow-listed machine, or every machine row is below the threshold, the
  transformer does not fail: it returns no machine rows and the grand total 0, 0, 0.
  When nothing in the renderer raises, the run writes that empty report and shows the
  success dialog.
\<close>

theorem C10_empty_report:
  fixes p :: "cell list \<Rightarrow> ('d::linorder) option list" and env :: "'d env"
  assumes cols: "set (map fst column_map) \<subseteq> set (columns df)"
    and none: "(\<forall>d \<in> set (p (map work_date (rows df))). d = None)
             \<or> (\<forall>r \<in> set (rows df). machine r \<notin> set allowed_machines)
             \<or> (\<exists>ss. summary_all (parse_work_date p (rows df)) = Inr ss
                   \<and> (\<forall>s \<in> set ss. wpcs_percent s < 20))"
  shows "transformer p df =
           Inr ([], \<lparr>total_worked_qty = 0, total_wpc_qty = 0, total_wpcs_percent = 0\<rparr>)
       \<and> (loader env input_file w = (Inr df, w1) \<and> to_datetime env = p
            \<and> excel_writer_fault env output_file = None
            \<and> load_workbook_fault env output_file = None
            \<and> save_fault env output_file = None \<longrightarrow>
          generate_report env input_file output_file w =
            w1\<lparr>disk := (disk w1)(output_file \<mapsto>
                  \<lparr>summary_rows = [],
                   total_row = \<lparr>total_worked_qty = 0, total_wpc_qty = 0, total_wpcs_percent = 0\<rparr>,
                   styled = True\<rparr>),
               dialogs := dialogs w1 @ [ShowInfo output_file]\<rparr>)"
proof -
  from cols have "filter (\<lambda>k. k \<notin> set (columns df)) (map fst column_map) = []"
    by (auto simp: filter_empty_conv)
  then obtain sel where sel: "df_selected df = Inr sel"
    by (simp add: df_selected_def)
  let ?dated = "parse_work_date p (rows df)"
  from none consider
      (dates) "\<forall>d \<in> set (p (map work_date (rows df))). d = None"
    | (machines) "\<forall>r \<in> set (rows df). machine r \<notin> set allowed_machines"
    | (low) ss where "summary_all ?dated = Inr ss" "\<forall>s \<in> set ss. wpcs_percent s < 20"
    by blast
  then have tr: "transformer p df =
           Inr ([], \<lparr>total_worked_qty = 0, total_wpc_qty = 0, total_wpcs_percent = 0\<rparr>)"
  proof cases
    case dates
    then have "?dated = []"
      by (simp add: parse_work_date_def dropna_all_None)
    then have "summary_all ?dated = Inr []"
      by (simp add: summary_all_Nil df_filtered_def)
    from transformer_empty [OF sel this] show ?thesis
      by (simp add: threshold_def)
  next
    case machines
    have "df_filtered ?dated = []"
      unfolding df_filtered_def parse_work_date_def filter_empty_conv
      using machines dropna_machine by fastforce
    then have "summary_all ?dated = Inr []"
      by (rule summary_all_Nil)
    from transformer_empty [OF sel this] show ?thesis
      by (simp add: threshold_def)
  next
    case low
    from low(2) have "threshold ss = []"
      by (auto simp: threshold_def filter_empty_conv)
    from transformer_empty [OF sel low(1) this] show ?thesis .
  qed
  then have "generate_report env input_file output_file w =
            w1\<lparr>disk := (disk w1)(output_file \<mapsto>
                  \<lparr>summary_rows = [],
                   total_row = \<lparr>total_worked_qty = 0, total_wpc_qty = 0, total_wpcs_percent = 0\<rparr>,
                   styled = True\<rparr>),
               dialogs := dialogs w1 @ [ShowInfo output_file]\<rparr>"
    if "loader env input_file w = (Inr df, w1) \<and> to_datetime env = p
            \<and> excel_writer_fault env output_file = None
            \<and> load_workbook_fault env output_file = None
            \<and> save_fault env output_file = None"
    using that by (simp add: generate_report_def try_body_def renderer_def Let_def)
  with tr show ?thesis
    by blast
qed

text \<open>One table for each of the three ways, and a whole run on the first.\<close>

theorem C10_empty_report_witness:
  "transformer example_to_datetime \<lparr>columns = map fst column_map, rows = bad_date_rows\<rparr> =
     Inr ([], \<lparr>total_worked_qty = 0, total_wpc_qty = 0, total_wpcs_percent = 0\<rparr>)
   \<and> transformer example_to_datetime \<lparr>columns = map fst column_map, rows = foreign_rows\<rparr> =
     Inr ([], \<lparr>total_worked_qty = 0, total_wpc_qty = 0, total_wpcs_percent = 0\<rparr>)
   \<and> transformer example_to_datetime \<lparr>columns = map fst column_map, rows = low_rows\<rparr> =
     Inr ([], \<lparr>total_worked_qty = 0, total_wpc_qty = 0, total_wpcs_percent = 0\<rparr>)
   \<and> example_to_datetime (map work_date bad_date_rows) = [None, None]
   \<and> map machine foreign_rows = [''A99'', ''a01'']
   \<and> summary_all (parse_work_date example_to_datetime low_rows) =
       Inr [\<lparr>summary_machine = ''A02'', last_work_date = Some (2024, 1, 5),
             worked = 100, wpc = 10, wpcs_percent = 10\<rparr>,
            \<lparr>summary_machine = ''A03'', last_work_date = Some (2024, 1, 6),
             worked = 0, wpc = 9, wpcs_percent = 0\<rparr>]
   \<and> generate_report
        (example_env \<lparr>columns = map fst column_map, rows = bad_date_rows\<rparr> None)
        ''log.csv'' ''out.xlsx'' empty_world =
       empty_world
         \<lparr>disk := [''out.xlsx'' \<mapsto>
             \<lparr>summary_rows = [],
              total_row = \<lparr>total_worked_qty = 0, total_wpc_qty = 0, total_wpcs_percent = 0\<rparr>,
              styled = True\<rparr>],
          opened := [''log.csv''],
          dialogs := [ShowInfo ''out.xlsx'']\<rparr>"
proof -
  let ?bad = "\<lparr>columns = map fst column_map, rows = bad_date_rows\<rparr>"
  let ?foreign = "\<lparr>columns = map fst column_map, rows = foreign_rows\<rparr>"
  let ?low = "\<lparr>columns = map fst column_map, rows = low_rows\<rparr>"
  let ?env = "example_env ?bad None"
  have cols: "set (map fst column_map) \<subseteq> set (columns \<lparr>columns = map fst column_map, rows = rs\<rparr>)"
    for rs :: "cell row list"
    by simp
  have bad: "example_to_datetime (map work_date bad_date_rows) = [None, None]"
    by (simp add: bad_date_rows_def example_to_datetime_def)
  have foreign: "map machine foreign_rows = [''A99'', ''a01'']"
    by (simp add: foreign_rows_def)
  have low: "summary_all (parse_work_date example_to_datetime low_rows) =
       Inr [\<lparr>summary_machine = ''A02'', last_work_date = Some (2024, 1, 5),
             worked = 100, wpc = 10, wpcs_percent = 10\<rparr>,
            \<lparr>summary_machine = ''A03'', last_work_date = Some (2024, 1, 6),
             worked = 0, wpc = 9, wpcs_percent = 0\<rparr>]"
    by code_simp
  have h1: "(\<forall>d \<in> set (example_to_datetime (map work_date (rows ?bad))). d = None)
      \<or> (\<forall>r \<in> set (rows ?bad). machine r \<notin> set allowed_machines)
      \<or> (\<exists>ss. summary_all (parse_work_date example_to_datetime (rows ?bad)) = Inr ss
            \<and> (\<forall>s \<in> set ss. wpcs_percent s < 20))"
    by (simp add: bad)
  have h2: "(\<forall>d \<in> set (example_to_datetime (map work_date (rows ?foreign))). d = None)
      \<or> (\<forall>r \<in> set (rows ?foreign). machine r \<notin> set allowed_machines)
      \<or> (\<exists>ss. summary_all (parse_work_date example_to_datetime (rows ?foreign)) = Inr ss
            \<and> (\<forall>s \<in> set ss. wpcs_percent s < 20))"
    by (simp add: foreign_rows_def allowed_machines_eq)
  have h3: "(\<forall>d \<in> set (example_to_datetime (map work_date (rows ?low))). d = None)
      \<or> (\<forall>r \<in> set (rows ?low). machine r \<notin> set allowed_machines)
      \<or> (\<exists>ss. summary_all (parse_work_date example_to_datetime (rows ?low)) = Inr ss
            \<and> (\<forall>s \<in> set ss. wpcs_percent s < 20))"
    by (simp add: low)
  have ext: "file_ext ''log.csv'' = ''csv''"
    by code_simp
  have ld: "loader ?env ''log.csv'' empty_world = (Inr ?bad, empty_world\<lparr>opened := [''log.csv'']\<rparr>)
      \<and> to_datetime ?env = example_to_datetime
      \<and> excel_writer_fault ?env ''out.xlsx'' = None
      \<and> load_workbook_fault ?env ''out.xlsx'' = None
      \<and> save_fault ?env ''out.xlsx'' = None"
    by (simp add: loader_def ext example_env_def empty_world_def)
  note A = C10_empty_report [where p = example_to_datetime, OF cols h1, of ?env "''log.csv''" empty_world
      "empty_world\<lparr>opened := [''log.csv'']\<rparr>" "''out.xlsx''"]
  note B = C10_empty_report [where p = example_to_datetime, OF cols h2, of ?env "''log.csv''" empty_world
      "empty_world\<lparr>opened := [''log.csv'']\<rparr>" "''out.xlsx''"]
  note C = C10_empty_report [where p = example_to_datetime, OF cols h3, of ?env "''log.csv''" empty_world
      "empty_world\<lparr>opened := [''log.csv'']\<rparr>" "''out.xlsx''"]
  from A ld have g: "generate_report ?env ''log.csv'' ''out.xlsx'' empty_world =
       empty_world
         \<lparr>disk := [''out.xlsx'' \<mapsto>
             \<lparr>summary_rows = [],
              total_row = \<lparr>total_worked_qty = 0, total_wpc_qty = 0, total_wpcs_percent = 0\<rparr>,
              styled = True\<rparr>],
          opened := [''log.csv''],
          dialogs := [ShowInfo ''out.xlsx'']\<rparr>"
    by (simp add: empty_world_def)
  from A B C g bad foreign low show ?thesis
    by blast
qed

end
